theory Spec2Isabelle
  imports Main "HOL-Library.Multiset"
begin

section \<open>Python strings\<close>

text \<open>
  A Python \<open>str\<close> is a sequence of Unicode code points, so a string is a list of
  code points here: slicing and \<open>len\<close> count code points, and the Korean keywords of
  the tables are written by their code points. ASCII text is written as an Isabelle
  string literal and converted with \<open>ascii\<close>.
\<close>

type_synonym ustring = "nat list"

definition ascii :: "string \<Rightarrow> ustring" where
  "ascii s = map of_char s"

text \<open>
  \<open>str.lower()\<close>, code point by code point: the letters \<open>A\<close> to \<open>Z\<close> go to
  \<open>a\<close> to \<open>z\<close>, the Kelvin sign U+212A goes to \<open>k\<close>, and the dotted capital I
  U+0130 goes to \<open>i\<close> followed by the combining dot U+0307. These are all the code
  points that \<open>str.lower()\<close> changes into, or away from, a character of the keyword
  tables and category names (ASCII and Hangul, all fixed by \<open>str.lower()\<close>). Every
  other code point is left as it is here; those among them that \<open>str.lower()\<close> changes
  are changed from and to characters that occur in no keyword, so that no comparison of a
  lower-cased text with a keyword or a category name depends on them.
\<close>

definition lower_cp :: "nat \<Rightarrow> nat list" where
  "lower_cp c =
     (if 65 \<le> c \<and> c \<le> 90 then [c + 32]
      else if c = 0x212A then [0x6B]
      else if c = 0x130 then [0x69, 0x307]
      else [c])"

definition lower :: "ustring \<Rightarrow> ustring" where
  "lower s = concat (map lower_cp s)"

text \<open>\<open>str.isspace()\<close> on one code point: the white space that \<open>str.strip()\<close> removes.\<close>

definition isspace :: "nat \<Rightarrow> bool" where
  "isspace c \<longleftrightarrow>
     (9 \<le> c \<and> c \<le> 13) \<or> (28 \<le> c \<and> c \<le> 32) \<or> c = 0x85 \<or> c = 0xA0 \<or> c = 0x1680
     \<or> (0x2000 \<le> c \<and> c \<le> 0x200A) \<or> c = 0x2028 \<or> c = 0x2029 \<or> c = 0x202F
     \<or> c = 0x205F \<or> c = 0x3000"

definition strip :: "ustring \<Rightarrow> ustring" where
  "strip s = rev (dropWhile isspace (rev (dropWhile isspace s)))"

text \<open>\<open>p in t\<close> on strings: \<open>p\<close> occurs in \<open>t\<close> as a contiguous run.\<close>

fun startswith :: "ustring \<Rightarrow> ustring \<Rightarrow> bool" where
  "startswith t [] = True"
| "startswith [] (c # p) = False"
| "startswith (d # t) (c # p) = (d = c \<and> startswith t p)"

fun str_in :: "ustring \<Rightarrow> ustring \<Rightarrow> bool" where
  "str_in p [] = (p = [])"
| "str_in p (d # t) = (startswith (d # t) p \<or> str_in p t)"

section \<open>Values\<close>

text \<open>
  The values a news item's dictionary holds in \<open>fetch_news.py\<close>: \<open>None\<close>, a string,
  or a boolean (the \<open>skip\<close> mark). A news item is a dictionary from field names to
  such values.
\<close>

datatype pyval = PyNone | PyStr ustring | PyBool bool

type_synonym news_item = "string \<rightharpoonup> pyval"

text \<open>
  A cell of the data frame that pandas reads from \<open>news.csv\<close> in the two maintenance
  scripts: an empty cell is read as NaN, any other as its text.
\<close>

datatype cell = NaN | Str ustring


section \<open>Category groups\<close>

subsection \<open>\<open>fetch_news.map_to_group_category\<close>\<close>

definition outage_block :: "ustring list" where
  "outage_block = [
    ascii ''internet_shutdown'', ascii ''tech_outage'', ascii ''power_outage'',
    ascii ''censorship'', ascii ''cyber_attack'', ascii ''infrastructure_damage'']"

definition social_crisis :: "ustring list" where
  "social_crisis = [
    ascii ''war_conflict'', ascii ''terrorism_explosion'', ascii ''natural_disaster'',
    ascii ''protest_strike'', ascii ''curfew'', ascii ''pandemic'', ascii ''economic'']"

definition seasonal_calendar :: "ustring list" where
  "seasonal_calendar = [ascii ''holiday'', ascii ''school_calendar'', ascii ''election'']"

definition gaming_competitor :: "ustring list" where
  "gaming_competitor = [
    ascii ''gaming'', ascii ''competitor_game'', ascii ''social_trend'',
    ascii ''sports_event'', ascii ''major_event'']"

text \<open>
  The argument is whatever the caller read from the item (\<open>item.get('category', ...)\<close>);
  a value that is not a string is in none of the lists.
\<close>

fun map_to_group_category :: "pyval \<Rightarrow> ustring" where
  "map_to_group_category (PyStr detail_category) =
     (if detail_category \<in> set outage_block then ascii ''outage_block''
      else if detail_category \<in> set social_crisis then ascii ''social_crisis''
      else if detail_category \<in> set seasonal_calendar then ascii ''seasonal_calendar''
      else if detail_category \<in> set gaming_competitor then ascii ''gaming_competitor''
      else ascii ''other'')"
| "map_to_group_category v = ascii ''other''"

subsection \<open>\<open>fix_category_groups.map_to_group_category\<close>\<close>

definition fix_outage_block :: "ustring list" where
  "fix_outage_block = [
    ascii ''internet_shutdown'', ascii ''tech_outage'', ascii ''power_outage'',
    ascii ''censorship'', ascii ''cyber_attack'', ascii ''infrastructure_damage'']"

definition fix_social_crisis :: "ustring list" where
  "fix_social_crisis = [
    ascii ''war_conflict'', ascii ''terrorism_explosion'', ascii ''natural_disaster'',
    ascii ''protest_strike'', ascii ''curfew'', ascii ''pandemic'', ascii ''economic'']"

definition fix_seasonal_calendar :: "ustring list" where
  "fix_seasonal_calendar = [ascii ''holiday'', ascii ''school_calendar'', ascii ''election'']"

definition fix_gaming_competitor :: "ustring list" where
  "fix_gaming_competitor = [
    ascii ''gaming'', ascii ''competitor_game'', ascii ''social_trend'',
    ascii ''sports_event'', ascii ''major_event'']"

text \<open>
  The repair script's mapper: a falsy or missing value gives \<open>other\<close> at once; any
  other is stripped and lower-cased before the table is consulted.
\<close>

fun fix_map_to_group_category :: "cell \<Rightarrow> ustring" where
  "fix_map_to_group_category NaN = ascii ''other''"
| "fix_map_to_group_category (Str s) =
     (if s = [] then ascii ''other''
      else let detail_category = lower (strip s) in
        if detail_category \<in> set fix_outage_block then ascii ''outage_block''
        else if detail_category \<in> set fix_social_crisis then ascii ''social_crisis''
        else if detail_category \<in> set fix_seasonal_calendar then ascii ''seasonal_calendar''
        else if detail_category \<in> set fix_gaming_competitor then ascii ''gaming_competitor''
        else ascii ''other'')"

section \<open>Classification\<close>

text \<open>
  Truthiness of a value, as \<open>if v\<close> and \<open>v if v else d\<close> test it: \<open>None\<close>, the
  empty string and \<open>False\<close> are falsy.
\<close>

fun truthy :: "pyval \<Rightarrow> bool" where
  "truthy PyNone = False"
| "truthy (PyStr s) = (s \<noteq> [])"
| "truthy (PyBool b) = b"

text \<open>
  \<open>for kw in kws: if kw.lower() in text: return ...\<close> returns exactly when some keyword
  of the list, lower-cased, occurs in the text.
\<close>

definition any_keyword_in :: "ustring list \<Rightarrow> ustring \<Rightarrow> bool" where
  "any_keyword_in kws text = list_ex (\<lambda>kw. str_in (lower kw) text) kws"

subsection \<open>The keyword tables of the RSS path\<close>

definition HIGH_PRIORITY_KEYWORDS_critical :: "ustring list" where
  "HIGH_PRIORITY_KEYWORDS_critical = [
    ascii ''internet shutdown'', ascii ''blackout'', ascii ''power outage'', ascii ''outage'',
    ascii ''war'', ascii ''explosion'', ascii ''bombing'', ascii ''attack'',
    ascii ''terrorism'', ascii ''terrorist'', ascii ''earthquake'', ascii ''flood'',
    ascii ''disaster'', ascii ''emergency'', ascii ''tsunami'', ascii ''typhoon'',
    ascii ''curfew'', ascii ''protest'', ascii ''riot'', ascii ''strike'', ascii ''unrest'',
    ascii ''shutdown'', ascii ''ban'', ascii ''block'', ascii ''censorship'']"

definition HIGH_PRIORITY_KEYWORDS_countries :: "ustring list" where
  "HIGH_PRIORITY_KEYWORDS_countries = [
    ascii ''Iraq'', ascii ''Pakistan'', ascii ''Turkey'', ascii ''Russia'', ascii ''Egypt'',
    ascii ''Saudi Arabia'', ascii ''Indonesia'', ascii ''Hong Kong'', ascii ''Iran'',
    ascii ''Syria'', ascii ''Baghdad'', ascii ''Karachi'', ascii ''Istanbul'',
    ascii ''Moscow'', ascii ''Cairo'', ascii ''Jakarta'']"

definition MEDIUM_RULES :: "(ustring \<times> ustring list) list" where
  "MEDIUM_RULES = [
    (ascii ''gaming'', [
      ascii ''PUBG'', ascii ''pubg mobile'', ascii ''battlegrounds mobile'', ascii ''Krafton'',
      ascii ''BGMI'', ascii ''PMGC'', ascii ''PMPL'', ascii ''pubg esports'',
      ascii ''Free Fire'', ascii ''Call of Duty Mobile'', ascii ''COD Mobile'',
      ascii ''mobile game revenue'', ascii ''mobile game update'', ascii ''game patch'',
      ascii ''esports tournament'', ascii ''e-sports championship'', [0xD38D, 0xC9C0],
      [0xBC30, 0xD2C0, 0xADF8, 0xB77C, 0xC6B4, 0xB4DC], [0xD06C, 0xB798, 0xD504, 0xD1A4],
      [0xBAA8, 0xBC14, 0xC77C, 0xAC8C, 0xC784] @ ascii '' '' @ [0xB9E4, 0xCD9C],
      [0xAC8C, 0xC784] @ ascii '' '' @ [0xC5C5, 0xB370, 0xC774, 0xD2B8]]),
    (ascii ''holiday'', [
      ascii ''national holiday'', ascii ''public holiday'', ascii ''bank holiday'',
      ascii ''Eid al-Fitr'', ascii ''Eid al-Adha'', ascii ''Christmas Day'',
      ascii ''New Year Day'', ascii ''Ramadan begins'', ascii ''Diwali celebration'',
      [0xAD6D, 0xACBD, 0xC77C], [0xACF5, 0xD734, 0xC77C],
      [0xBA85, 0xC808] @ ascii '' '' @ [0xC5F0, 0xD734], [0xCD94, 0xC11D], [0xC124, 0xB0A0]]),
    (ascii ''school'', [
      ascii ''school holiday'', ascii ''school vacation'', ascii ''exam period'',
      ascii ''semester break'', ascii ''summer vacation'', ascii ''winter vacation'',
      [0xBC29, 0xD559] @ ascii '' '' @ [0xC2DC, 0xC791],
      [0xC2DC, 0xD5D8] @ ascii '' '' @ [0xAE30, 0xAC04], [0xAC1C, 0xD559]])]"

definition EXCLUDE_PATTERNS :: "ustring list" where
  "EXCLUDE_PATTERNS = [
    [0xAD11, 0xACE0], ascii ''sponsored'', ascii ''affiliate'', ascii ''promotion'',
    [0xD504, 0xB85C, 0xBAA8, 0xC158], [0xCEA0, 0xD398, 0xC778], ascii ''campaign'',
    [0xD31D, 0xC5C5], ascii ''popup'', [0xCF5C, 0xB77C, 0xBCF4], ascii ''collaboration'',
    [0xCD9C, 0xC2DC], ascii ''launch'', [0xC2E0, 0xC81C, 0xD488], [0xD560, 0xC778],
    ascii ''sale'', [0xC138, 0xC77C], [0xD611, 0xCC2C], [0xB9C8, 0xCF00, 0xD305],
    ascii ''PPL'', [0xBCF4, 0xB3C4, 0xC790, 0xB8CC], ascii ''branded content'',
    [0xC8FC, 0xC2DD], [0xC99D, 0xC2DC], [0xCF54, 0xC2A4, 0xD53C], [0xCF54, 0xC2A4, 0xB2E5],
    [0xB098, 0xC2A4, 0xB2E5], [0xC7A5, 0xC911], [0xC7A5] @ ascii '' '' @ [0xB9C8, 0xAC10],
    [0xC7A5] @ ascii '' '' @ [0xCD08, 0xBC18],
    [0xB9C8, 0xAC10] @ ascii '' '' @ [0xC9C0, 0xC218], [0xC8FC, 0xAC00],
    [0xC8FC, 0xC2DD, 0xC2DC, 0xC7A5], [0xD22C, 0xC790, 0xC790],
    [0xAE30, 0xAD00, 0xD22C, 0xC790, 0xC790], [0xC99D, 0xAD8C, 0xC0AC],
    [0xC99D, 0xAD8C, 0xAC00], [0xB9AC, 0xD3EC, 0xD2B8],
    [0xB9AC, 0xC11C, 0xCE58, 0xC13C, 0xD130], [0xC2E4, 0xC801, 0xBC1C, 0xD45C],
    [0xBD84, 0xAE30] @ ascii '' '' @ [0xC2E4, 0xC801],
    [0xC5F0, 0xAC04] @ ascii '' '' @ [0xC2E4, 0xC801], ascii ''stock price'',
    ascii ''earnings'', ascii ''quarterly earnings'', ascii ''annual earnings'',
    ascii ''investor'', [0xD22C, 0xC790], [0xBC30, 0xB2F9], ascii ''dividend'',
    [0xD380, 0xB4DC], ascii ''ETF'', [0xB9AC, 0xCE20], [0xC7AC, 0xD14C, 0xD06C], ascii ''IPO'',
    [0xACF5, 0xBAA8, 0xC8FC], ascii ''IR'', ascii ''conference call'', [0xCC44, 0xC6A9],
    [0xACF5, 0xCC44], [0xC218, 0xC2DC, 0xCC44, 0xC6A9],
    [0xCC44, 0xC6A9] @ ascii '' '' @ [0xACF5, 0xACE0], [0xC2E0, 0xC785, 0xC0AC, 0xC6D0],
    [0xACBD, 0xB825, 0xC9C1], [0xC778, 0xC7AC] @ ascii '' '' @ [0xCC44, 0xC6A9],
    [0xAD6C, 0xC778], [0xAD6C, 0xC778] @ ascii '' '' @ [0xACF5, 0xACE0], ascii ''hiring'',
    ascii ''job opening'', ascii ''career'', ascii ''recruitment'', ascii ''career fair'',
    [0xCC44, 0xC6A9] @ ascii '' '' @ [0xC124, 0xBA85, 0xD68C],
    [0xC778, 0xD134] @ ascii '' '' @ [0xBAA8, 0xC9D1], [0xACF5, 0xBAA8, 0xC804],
    [0xAC78, 0xADF8, 0xB8F9], [0xBCF4, 0xC774, 0xADF8, 0xB8F9], [0xC544, 0xC774, 0xB3CC],
    ascii ''idol'', ascii ''K-pop'', [0xCF58, 0xC11C, 0xD2B8], ascii ''concert'',
    [0xC568, 0xBC94], ascii ''album'', [0xBBA4, 0xC9C1, 0xBE44, 0xB514, 0xC624],
    [0xD32C, 0xBBF8, 0xD305], ascii ''fan meeting'', ascii ''MAMA'', ascii ''Awards'',
    [0xC2DC, 0xC0C1, 0xC2DD], ascii ''mourning'', [0xB4DC, 0xB77C, 0xB9C8], [0xC608, 0xB2A5],
    [0xC2DC, 0xCCAD, 0xB960],
    [0xC608, 0xB2A5] @ ascii '' '' @ [0xD504, 0xB85C, 0xADF8, 0xB7A8],
    [0xB9AC, 0xC5BC, 0xB9AC, 0xD2F0, 0xC1FC], ascii ''OTT'', [0xB137, 0xD50C, 0xB9AD, 0xC2A4],
    [0xB514, 0xC988, 0xB2C8] @ ascii ''+'', [0xD2F0, 0xBE59], [0xC6E8, 0xC774, 0xBE0C],
    [0xCFE0, 0xD321, 0xD50C, 0xB808, 0xC774], ascii ''Netflix'', ascii ''Disney+'',
    ascii ''OST'', [0xC5F4, 0xC560, 0xC124], [0xACB0, 0xBCC4, 0xC124],
    [0xC5F0, 0xC608, 0xACC4], [0xC5F0, 0xC608, 0xC778] @ ascii '' '' @ [0xCEE4, 0xD50C],
    [0xC2A4, 0xCE94, 0xB4E4], [0xC601, 0xD654, 0xC81C], [0xB808, 0xB4DC, 0xCE74, 0xD3AB],
    ascii ''celebrity'', ascii ''entertainment news'', ascii ''showbiz'', [0xB358, 0xD0A8],
    [0xC2A4, 0xD0C0, 0xBC85, 0xC2A4], [0xB9E5, 0xB3C4, 0xB0A0, 0xB4DC],
    [0xBC84, 0xAC70, 0xD0B9], [0xC5E0, 0xC564, 0xC5E0], ascii ''M&M'',
    [0xCD08, 0xCF5C, 0xB9BF], [0xCEE4, 0xD53C], ascii ''coffee'', [0xC74C, 0xB8CC],
    [0xD328, 0xC158], ascii ''fashion'', [0xBDF0, 0xD2F0], ascii ''beauty'',
    [0xD654, 0xC7A5, 0xD488], ascii ''cosmetic'', [0xC758, 0xB958], ascii ''clothing'',
    [0xC1FC, 0xD551], ascii ''shopping'', [0xC790, 0xC8FC, 0xD3EC], [0xC804, 0xCC28],
    [0xBBF8, 0xC0AC, 0xC77C], [0xBB34, 0xAE30], [0xAD70, 0xC218], [0xBC29, 0xC0B0],
    [0xAD6D, 0xBC29], ascii ''K9'', ascii ''K2'', [0xD55C, 0xD654, 0xC5D0, 0xC5B4, 0xB85C],
    [0xD55C, 0xD654, 0xB514, 0xD39C, 0xC2A4], ascii ''defense contract'',
    ascii ''military contract'', ascii ''arms deal'', [0xBC29, 0xC704, 0xC0AC, 0xC5C5],
    ascii ''DMZ'', ascii ''Korean War soldiers'',
    [0xC720, 0xD574] @ ascii '' '' @ [0xBC1C, 0xAD74], [0xC804, 0xC0AC, 0xC790],
    [0xB300, 0xD1B5, 0xB839], [0xAD6D, 0xD68C], [0xC678, 0xAD50, 0xBD80], [0xC7A5, 0xAD00],
    [0xC815, 0xC0C1, 0xD68C, 0xB2F4], ascii ''summit'', [0xC870, 0xC57D], ascii ''treaty'',
    [0xD611, 0xC815], ascii ''KT '' @ [0xC704, 0xC988], ascii ''kt wiz'',
    ascii ''KT'' @ [0xC704, 0xC988], [0xD504, 0xB85C, 0xCD95, 0xAD6C],
    [0xD504, 0xB85C, 0xC57C, 0xAD6C], ascii ''NBA'', ascii ''MLB'',
    [0xC57C, 0xAD6C] @ ascii '' '' @ [0xACB0, 0xACFC],
    [0xCD95, 0xAD6C] @ ascii '' '' @ [0xACB0, 0xACFC],
    [0xACBD, 0xAE30] @ ascii '' '' @ [0xACB0, 0xACFC], [0xAD6C, 0xC6D0, 0xD22C, 0xC218],
    [0xC2A4, 0xD1A0, 0xBE0C, 0xB9AC, 0xADF8], ascii ''WAR '' @ [0xC804, 0xCCB4],
    [0xBD84, 0xC591], [0xCCAD, 0xC57D],
    [0xC785, 0xC8FC, 0xC790] @ ascii '' '' @ [0xBAA8, 0xC9D1], [0xC804, 0xC138],
    [0xC6D4, 0xC138], [0xB9E4, 0xB9E4], [0xC804, 0xC6D4, 0xC138], [0xC804, 0xC138, 0xAC00],
    [0xB9E4, 0xB9E4, 0xAC00], [0xC9D1, 0xAC12],
    [0xC544, 0xD30C, 0xD2B8] @ ascii '' '' @ [0xB2E8, 0xC9C0],
    [0xC624, 0xD53C, 0xC2A4, 0xD154], [0xC0C1, 0xAC00] @ ascii '' '' @ [0xBD84, 0xC591],
    [0xC624, 0xD53C, 0xC2A4] @ ascii '' '' @ [0xC784, 0xB300],
    [0xBD80, 0xB3D9, 0xC0B0] @ ascii '' '' @ [0xC2DC, 0xC7A5],
    [0xBD80, 0xB3D9, 0xC0B0] @ ascii '' '' @ [0xADDC, 0xC81C], [0xBD80, 0xB3D9, 0xC0B0],
    ascii ''real estate'', ascii ''housing market'',
    [0xC624, 0xB298, 0xC758] @ ascii '' '' @ [0xB0A0, 0xC528],
    [0xC8FC, 0xAC04] @ ascii '' '' @ [0xB0A0, 0xC528], [0xAE30, 0xC0C1, 0xCCAD],
    [0xAE30, 0xC628], [0xBBF8, 0xC138, 0xBA3C, 0xC9C0], [0xCCB4, 0xAC10, 0xC628, 0xB3C4],
    [0xB0A0, 0xC528], ascii ''weather forecast'', ascii ''weekly forecast'',
    [0xB808, 0xC2DC, 0xD53C], [0xC694, 0xB9AC, 0xBC95], [0xC9D1, 0xBC25],
    [0xAC04, 0xD3B8, 0xC2DD], [0xB9DB, 0xC9D1] @ ascii '' '' @ [0xD0D0, 0xBC29],
    [0xC2DD, 0xB2F9] @ ascii '' '' @ [0xB9AC, 0xBDF0],
    [0xCE74, 0xD398] @ ascii '' '' @ [0xCD94, 0xCC9C], ascii ''restaurant review'',
    ascii ''food blog'', [0xB9DB, 0xC9D1], ascii ''restaurant'', [0xC5EC, 0xD589],
    ascii ''travel tip'', ascii ''immigration protest'', ascii ''hindu protest'',
    ascii ''farmer protest'']"

subsection \<open>\<open>classify_news_priority\<close>\<close>

text \<open>
  The branch taken inside the loop over \<open>MEDIUM_RULES\<close> once a keyword of the category
  has matched. A category that is none of the three returns nothing and the loop goes on.
\<close>

definition medium_return :: "ustring \<Rightarrow> (ustring \<times> pyval \<times> pyval) option" where
  "medium_return category =
     (if category = ascii ''gaming'' then
        Some (ascii ''medium'', PyStr (ascii ''gaming''), PyStr (ascii ''gaming''))
      else if category = ascii ''holiday'' then
        Some (ascii ''medium'', PyStr (ascii ''traffic_impact''), PyStr (ascii ''holiday''))
      else if category = ascii ''school'' then
        Some (ascii ''medium'', PyStr (ascii ''traffic_impact''), PyStr (ascii ''school_calendar''))
      else None)"

fun scan_medium_rules ::
  "(ustring \<times> ustring list) list \<Rightarrow> ustring \<Rightarrow> (ustring \<times> pyval \<times> pyval) option" where
  "scan_medium_rules [] text = None"
| "scan_medium_rules ((category, keywords) # rules) text =
     (if any_keyword_in keywords text then
        (case medium_return category of
           Some r \<Rightarrow> Some r
         | None \<Rightarrow> scan_medium_rules rules text)
      else scan_medium_rules rules text)"

text \<open>The result is \<open>(priority, news_type, auto_category)\<close>.\<close>

definition classify_news_priority :: "ustring \<Rightarrow> ustring \<Rightarrow> ustring \<times> pyval \<times> pyval" where
  "classify_news_priority title summary =
     (let text = lower (title @ ascii '' '' @ summary) in
      if any_keyword_in EXCLUDE_PATTERNS text then (ascii ''low'', PyNone, PyNone)
      else if any_keyword_in HIGH_PRIORITY_KEYWORDS_critical text then
        (ascii ''high'', PyStr (ascii ''traffic_impact''), PyNone)
      else if list_ex (\<lambda>country. str_in (lower country) text
                          \<and> any_keyword_in HIGH_PRIORITY_KEYWORDS_critical text)
                HIGH_PRIORITY_KEYWORDS_countries then
        (ascii ''high'', PyStr (ascii ''traffic_impact''), PyNone)
      else (case scan_medium_rules MEDIUM_RULES text of
              Some r \<Rightarrow> r
            | None \<Rightarrow> (ascii ''low'', PyNone, PyNone)))"

subsection \<open>The keyword tables of the Naver path\<close>

definition NEGATIVE_KEYWORDS :: "ustring list" where
  "NEGATIVE_KEYWORDS = [
    [0xCEA0, 0xD398, 0xC778], [0xD504, 0xB85C, 0xBAA8, 0xC158], [0xC774, 0xBCA4, 0xD2B8],
    [0xCD9C, 0xC2DC], [0xC2E0, 0xC81C, 0xD488], [0xD560, 0xC778], [0xC138, 0xC77C],
    [0xD31D, 0xC5C5], [0xCF5C, 0xB77C, 0xBCF4], ascii ''campaign'', ascii ''promotion'',
    ascii ''launch'', ascii ''sale'', ascii ''popup'', ascii ''collaboration'',
    [0xAC78, 0xADF8, 0xB8F9], [0xBCF4, 0xC774, 0xADF8, 0xB8F9], [0xC544, 0xC774, 0xB3CC],
    [0xCF58, 0xC11C, 0xD2B8], [0xC568, 0xBC94], [0xBBA4, 0xC9C1, 0xBE44, 0xB514, 0xC624],
    [0xD32C, 0xBBF8, 0xD305], [0xB358, 0xD0A8], [0xC2A4, 0xD0C0, 0xBC85, 0xC2A4],
    [0xB9E5, 0xB3C4, 0xB0A0, 0xB4DC], [0xBC84, 0xAC70, 0xD0B9], [0xC5E0, 0xC564, 0xC5E0],
    [0xCD08, 0xCF5C, 0xB9BF], [0xCEE4, 0xD53C], [0xD328, 0xC158], [0xBDF0, 0xD2F0],
    [0xD654, 0xC7A5, 0xD488], [0xC758, 0xB958], [0xC1FC, 0xD551]]"

definition GAMING_REQUIRED_KEYWORDS :: "ustring list" where
  "GAMING_REQUIRED_KEYWORDS = [
    ascii ''pubg'', [0xD38D, 0xC9C0], [0xBC30, 0xD2C0, 0xADF8, 0xB77C, 0xC6B4, 0xB4DC],
    [0xD06C, 0xB798, 0xD504, 0xD1A4], ascii ''krafton'', ascii ''bgmi'', ascii ''pmgc'',
    ascii ''pmpl'', ascii ''pcs'', ascii ''pgc'', ascii ''fps'',
    ascii ''fps'' @ [0xAC8C, 0xC784], ascii ''fps '' @ [0xAC8C, 0xC784], [0xC288, 0xD130],
    ascii ''shooter'', [0xBC30, 0xD2C0, 0xB85C, 0xC584], ascii ''battle royale'',
    [0xBC30, 0xD2C0] @ ascii '' '' @ [0xB85C, 0xC584], ascii ''free fire'',
    [0xD504, 0xB9AC, 0xD30C, 0xC774, 0xC5B4], [0xAC00, 0xB808, 0xB098], ascii ''garena'',
    ascii ''call of duty mobile'', ascii ''cod mobile'',
    [0xCF5C, 0xC624, 0xBE0C, 0xB4C0, 0xD2F0] @ ascii '' '' @ [0xBAA8, 0xBC14, 0xC77C],
    ascii ''apex legends mobile'',
    [0xC5D0, 0xC774, 0xD399, 0xC2A4] @ ascii '' '' @ [0xB808, 0xC804, 0xB4DC] @ ascii '' '' @ [0xBAA8, 0xBC14, 0xC77C],
    ascii ''fortnite mobile'',
    [0xD3EC, 0xD2B8, 0xB098, 0xC774, 0xD2B8] @ ascii '' '' @ [0xBAA8, 0xBC14, 0xC77C],
    ascii ''roblox'', [0xB85C, 0xBE14, 0xB85D, 0xC2A4], ascii ''fortnite'',
    [0xD3EC, 0xD2B8, 0xB098, 0xC774, 0xD2B8], ascii ''apex legends'',
    [0xC5D0, 0xC774, 0xD399, 0xC2A4] @ ascii '' '' @ [0xB808, 0xC804, 0xB4DC],
    [0xC5D0, 0xC774, 0xD399, 0xC2A4], ascii ''mobile esports'',
    [0xBAA8, 0xBC14, 0xC77C] @ ascii '' e'' @ [0xC2A4, 0xD3EC, 0xCE20],
    [0xBAA8, 0xBC14, 0xC77C] @ ascii '' '' @ [0xC774, 0xC2A4, 0xD3EC, 0xCE20]]"

definition TRAFFIC_IMPACT_KEYWORDS :: "(ustring \<times> ustring list) list" where
  "TRAFFIC_IMPACT_KEYWORDS = [
    (ascii ''disaster'', [
      [0xC9C0, 0xC9C4] @ ascii '' '' @ [0xBC1C, 0xC0DD],
      [0xC9C0, 0xC9C4] @ ascii '' '' @ [0xD53C, 0xD574],
      [0xD0DC, 0xD48D] @ ascii '' '' @ [0xC0C1, 0xB959],
      [0xD0DC, 0xD48D] @ ascii '' '' @ [0xD53C, 0xD574],
      [0xD64D, 0xC218] @ ascii '' '' @ [0xD53C, 0xD574],
      [0xD3ED, 0xC6B0] @ ascii '' '' @ [0xD53C, 0xD574], ascii ''earthquake hit'',
      ascii ''typhoon damage'', ascii ''flood damage'']),
    (ascii ''conflict'', [
      [0xC804, 0xC7C1] @ ascii '' '' @ [0xBC1C, 0xBC1C],
      [0xAD70, 0xC0AC] @ ascii '' '' @ [0xCDA9, 0xB3CC],
      [0xD3ED, 0xD0C4] @ ascii '' '' @ [0xD14C, 0xB7EC],
      [0xBB34, 0xB825] @ ascii '' '' @ [0xCDA9, 0xB3CC],
      [0xBBF8, 0xC0AC, 0xC77C] @ ascii '' '' @ [0xACF5, 0xACA9], ascii ''war outbreak'',
      ascii ''military conflict'', ascii ''bombing'', ascii ''missile attack'']),
    (ascii ''outage'', [
      [0xC778, 0xD130, 0xB137] @ ascii '' '' @ [0xCC28, 0xB2E8],
      [0xD1B5, 0xC2E0] @ ascii '' '' @ [0xC7A5, 0xC560],
      [0xC815, 0xC804] @ ascii '' '' @ [0xC0AC, 0xD0DC],
      [0xC11C, 0xBE44, 0xC2A4] @ ascii '' '' @ [0xC7A5, 0xC560],
      [0xC811, 0xC18D] @ ascii '' '' @ [0xC7A5, 0xC560], ascii ''internet shutdown'',
      ascii ''network outage'', ascii ''power outage'', ascii ''service down'']),
    (ascii ''holiday'', [
      [0xAD6D, 0xACBD, 0xC77C], [0xACF5, 0xD734, 0xC77C] @ ascii '' '' @ [0xC9C0, 0xC815],
      [0xC5F0, 0xD734] @ ascii '' '' @ [0xC2DC, 0xC791],
      [0xBA85, 0xC808] @ ascii '' '' @ [0xC5F0, 0xD734],
      [0xD734, 0xC77C] @ ascii '' '' @ [0xD655, 0xC815], ascii ''national holiday'',
      ascii ''public holiday announced'', ascii ''holiday begins''])]"

subsection \<open>\<open>is_relevant_news\<close>\<close>

text \<open>
  The loop over \<open>TRAFFIC_IMPACT_KEYWORDS.items()\<close>: the first category, in the order of
  the dictionary, one of whose keywords occurs in the text.
\<close>

fun scan_traffic_impact ::
  "(ustring \<times> ustring list) list \<Rightarrow> ustring \<Rightarrow> (bool \<times> pyval \<times> pyval \<times> pyval) option" where
  "scan_traffic_impact [] text = None"
| "scan_traffic_impact ((category, keywords) # rest) text =
     (if any_keyword_in keywords text then
        (let priority =
               (if category \<in> set [ascii ''disaster'', ascii ''conflict'', ascii ''outage'']
                then ascii ''high'' else ascii ''medium'')
         in Some (True, PyStr (ascii ''traffic_impact''), PyStr category, PyStr priority))
      else scan_traffic_impact rest text)"

text \<open>The result is \<open>(is_relevant, news_type, category, priority)\<close>.\<close>

definition is_relevant_news :: "ustring \<Rightarrow> ustring \<Rightarrow> bool \<times> pyval \<times> pyval \<times> pyval" where
  "is_relevant_news title description =
     (let text = lower (title @ ascii '' '' @ description) in
      if any_keyword_in NEGATIVE_KEYWORDS text then (False, PyNone, PyNone, PyNone)
      else if any_keyword_in GAMING_REQUIRED_KEYWORDS text then
        (True, PyStr (ascii ''gaming''), PyStr (ascii ''gaming''), PyStr (ascii ''medium''))
      else (case scan_traffic_impact TRAFFIC_IMPACT_KEYWORDS text of
              Some r \<Rightarrow> r
            | None \<Rightarrow> (False, PyNone, PyNone, PyNone)))"

section \<open>The RSS adapter\<close>

definition continent_map :: "(ustring \<times> ustring) list" where
  "continent_map = [
    (ascii ''USA'', ascii ''NORTH AMERICA''), (ascii ''Canada'', ascii ''NORTH AMERICA''),
    (ascii ''Mexico'', ascii ''NORTH AMERICA''),
    (ascii ''Brazil'', ascii ''SOUTH AMERICA''), (ascii ''Argentina'', ascii ''SOUTH AMERICA''),
    (ascii ''Germany'', ascii ''EUROPE''), (ascii ''UK'', ascii ''EUROPE''),
    (ascii ''France'', ascii ''EUROPE''), (ascii ''Italy'', ascii ''EUROPE''),
    (ascii ''Spain'', ascii ''EUROPE''),
    (ascii ''China'', ascii ''ASIA''), (ascii ''India'', ascii ''ASIA''),
    (ascii ''Japan'', ascii ''ASIA''), (ascii ''Korea'', ascii ''ASIA''),
    (ascii ''South Korea'', ascii ''ASIA''),
    (ascii ''South Africa'', ascii ''AFRICA''), (ascii ''Egypt'', ascii ''AFRICA''),
    (ascii ''Nigeria'', ascii ''AFRICA''),
    (ascii ''Australia'', ascii ''OCEANIA''), (ascii ''New Zealand'', ascii ''OCEANIA''),
    (ascii ''Russia'', ascii ''RUSSIA & CIS'')]"

definition get_continent :: "ustring \<Rightarrow> ustring" where
  "get_continent country =
     (case map_of continent_map country of Some c \<Rightarrow> c | None \<Rightarrow> ascii ''OTHER'')"

text \<open>
  One entry of the parsed feed, as the loop of \<open>fetch_news_from_rss\<close> reads it: the
  publication date formatted as \<open>%Y-%m-%d\<close>, whether that date is within the last day,
  the title and the summary after \<open>clean_html_tags\<close>, \<open>entry.get('link', '')\<close> and
  the title of the entry's source (\<open>Google News\<close> when it has none). Fetching and
  parsing the feed, the clock and the regular expressions of \<open>clean_html_tags\<close> are
  outside the model.
\<close>

record rss_entry =
  entry_date :: ustring
  entry_recent :: bool
  entry_title :: ustring
  entry_summary :: ustring
  entry_link :: ustring
  entry_source :: ustring

text \<open>
  The country of an item is the first key of \<open>priority_countries\<close> (a table of
  \<open>keywords.json\<close>, a parameter here) that occurs in the search keyword.
\<close>

fun set_country :: "ustring list \<Rightarrow> ustring \<Rightarrow> news_item \<Rightarrow> news_item" where
  "set_country [] keyword news_item = news_item"
| "set_country (country # countries) keyword news_item =
     (if str_in (lower country) (lower keyword) then
        news_item(''country'' \<mapsto> PyStr country,
                  ''continent'' \<mapsto> PyStr (get_continent country))
      else set_country countries keyword news_item)"

text \<open>The body of the loop over the entries; \<open>None\<close> is \<open>continue\<close>.\<close>

definition rss_news_item :: "ustring list \<Rightarrow> ustring \<Rightarrow> rss_entry \<Rightarrow> news_item option" where
  "rss_news_item priority_countries keyword entry =
     (if \<not> entry_recent entry then None
      else
        let clean_title = entry_title entry;
            clean_summary = take 500 (entry_summary entry)
        in case classify_news_priority clean_title clean_summary of
             (priority, news_type, auto_category) \<Rightarrow>
               if priority = ascii ''low'' then None
               else Some (set_country priority_countries keyword
                 [''date'' \<mapsto> PyStr (entry_date entry),
                  ''country'' \<mapsto> PyNone,
                  ''continent'' \<mapsto> PyNone,
                  ''title'' \<mapsto> PyStr clean_title,
                  ''summary'' \<mapsto> PyStr clean_summary,
                  ''url'' \<mapsto> PyStr (entry_link entry),
                  ''source'' \<mapsto> PyStr (entry_source entry),
                  ''category'' \<mapsto>
                     (if truthy auto_category then auto_category else PyStr (ascii ''gaming'')),
                  ''news_type'' \<mapsto>
                     (if truthy news_type then news_type else PyStr (ascii ''gaming'')),
                  ''priority'' \<mapsto> PyStr priority]))"

text \<open>The items built from the first ten entries of a feed that was fetched and parsed.\<close>

definition fetch_news_from_rss :: "ustring list \<Rightarrow> ustring \<Rightarrow> rss_entry list \<Rightarrow> news_item list" where
  "fetch_news_from_rss priority_countries keyword entries =
     List.map_filter (rss_news_item priority_countries keyword) (take 10 entries)"

section \<open>The refinement cache\<close>

datatype error = TypeError | AttributeError | FileNotFoundError | ParserError

text \<open>
  \<open>hashlib.md5(text.encode()).hexdigest()\<close> is a parameter \<open>md5_hexdigest\<close>: the
  digest is the library's, the repository decides what text is hashed and keeps the
  first 16 characters.
\<close>

definition get_cache_key :: "(ustring \<Rightarrow> ustring) \<Rightarrow> ustring \<Rightarrow> ustring" where
  "get_cache_key md5_hexdigest text = take 16 (md5_hexdigest text)"

text \<open>
  \<open>item.get(k, '')\<close>: the value under the key, the empty string when the key is
  missing.
\<close>

definition get_or_empty :: "news_item \<Rightarrow> string \<Rightarrow> pyval" where
  "get_or_empty item k = (case item k of None \<Rightarrow> PyStr [] | Some v \<Rightarrow> v)"

text \<open>
  \<open>get_cache_key(item.get('title', '') + item.get('url', ''))\<close>, the key under which
  \<open>smart_refine_batch\<close> both looks an item up and stores it. Adding a string and
  \<open>None\<close> or a boolean raises \<open>TypeError\<close>; two booleans add to a number, which has
  no \<open>encode\<close>.
\<close>

definition item_cache_key :: "(ustring \<Rightarrow> ustring) \<Rightarrow> news_item \<Rightarrow> error + ustring" where
  "item_cache_key md5_hexdigest item =
     (case (get_or_empty item ''title'', get_or_empty item ''url'') of
        (PyStr t, PyStr u) \<Rightarrow> Inr (get_cache_key md5_hexdigest (t @ u))
      | (PyBool a, PyBool b) \<Rightarrow> Inl AttributeError
      | _ \<Rightarrow> Inl TypeError)"

section \<open>The refinement stage\<close>

type_synonym cache = "ustring \<rightharpoonup> news_item"

text \<open>\<open>item.get(k)\<close>: the value under the key, \<open>None\<close> when the key is missing.\<close>

definition get_or_none :: "news_item \<Rightarrow> string \<Rightarrow> pyval" where
  "get_or_none item k = (case item k of None \<Rightarrow> PyNone | Some v \<Rightarrow> v)"

text \<open>
  The external refinement adapters, each absent when its API key is not configured.
  \<open>groq\<close> is \<open>fetch_from_groq\<close>: it returns the items it was given, in order, after
  writing the model's answers into them. \<open>paid\<close> is the name of the paid API together
  with \<open>refine_news_with_ai\<close> for it, and is present only when \<open>use_paid_api\<close> is set
  and a key exists; a result that is \<open>None\<close> or empty (falsy) is \<open>None\<close> here.
\<close>

record refiners =
  groq :: "(news_item list \<Rightarrow> news_item list) option"
  paid :: "(ustring \<times> (news_item \<Rightarrow> news_item option)) option"

text \<open>
  The first loop: an item whose key is in the cache is updated from the cached entry and
  marked; the others are the ones to process.
\<close>

fun restore_cached ::
  "(ustring \<Rightarrow> ustring) \<Rightarrow> cache \<Rightarrow> news_item list \<Rightarrow> error + (news_item \<times> bool) list" where
  "restore_cached md5_hexdigest cache [] = Inr []"
| "restore_cached md5_hexdigest cache (item # items) =
     (case item_cache_key md5_hexdigest item of
        Inl e \<Rightarrow> Inl e
      | Inr cache_key \<Rightarrow>
          (case restore_cached md5_hexdigest cache items of
             Inl e \<Rightarrow> Inl e
           | Inr rest \<Rightarrow>
               (case cache cache_key of
                  Some cached \<Rightarrow> Inr ((item ++ cached, True) # rest)
                | None \<Rightarrow> Inr ((item, False) # rest))))"

text \<open>
  The paid stage refines the first ten high-priority items among those to process; \<open>n\<close>
  counts how many may still be refined.
\<close>

fun paid_refine ::
  "ustring \<Rightarrow> (news_item \<Rightarrow> news_item option) \<Rightarrow> nat \<Rightarrow> news_item list \<Rightarrow> news_item list" where
  "paid_refine api_type refine n [] = []"
| "paid_refine api_type refine 0 (item # items) = item # items"
| "paid_refine api_type refine (Suc n) (item # items) =
     (if get_or_none item ''priority'' = PyStr (ascii ''high'') then
        (case refine item of
           Some refined \<Rightarrow> (item ++ refined)(''api_source'' \<mapsto> PyStr api_type)
         | None \<Rightarrow> item) # paid_refine api_type refine n items
      else item # paid_refine api_type refine (Suc n) items)"

definition cache_entry :: "news_item \<Rightarrow> news_item" where
  "cache_entry item =
     [''category'' \<mapsto> get_or_none item ''category'',
      ''category_group'' \<mapsto> get_or_none item ''category_group'',
      ''traffic_impact'' \<mapsto> get_or_none item ''traffic_impact'',
      ''api_source'' \<mapsto> get_or_none item ''api_source'']"

fun update_cache ::
  "(ustring \<Rightarrow> ustring) \<Rightarrow> cache \<Rightarrow> news_item list \<Rightarrow> error + cache" where
  "update_cache md5_hexdigest cache [] = Inr cache"
| "update_cache md5_hexdigest cache (item # items) =
     (case item_cache_key md5_hexdigest item of
        Inl e \<Rightarrow> Inl e
      | Inr cache_key \<Rightarrow>
          update_cache md5_hexdigest (cache(cache_key \<mapsto> cache_entry item)) items)"

text \<open>
  The adapters change the items to process in place, so the list that is returned holds
  the changed items at the places of the unmarked ones.
\<close>

fun merge_back :: "(news_item \<times> bool) list \<Rightarrow> news_item list \<Rightarrow> news_item list" where
  "merge_back [] processed = []"
| "merge_back ((item, True) # marked) processed = item # merge_back marked processed"
| "merge_back ((item, False) # marked) [] = item # merge_back marked []"
| "merge_back ((item, False) # marked) (p # processed) = p # merge_back marked processed"

text \<open>
  \<open>if not item.get('category_group'): item['category_group'] =
  map_to_group_category(item.get('category', dflt))\<close>
\<close>

definition fill_category_group :: "ustring \<Rightarrow> news_item \<Rightarrow> news_item" where
  "fill_category_group dflt item =
     (if truthy (get_or_none item ''category_group'') then item
      else item(''category_group'' \<mapsto>
             PyStr (map_to_group_category
                      (case item ''category'' of None \<Rightarrow> PyStr dflt | Some v \<Rightarrow> v))))"

text \<open>
  The result is the list of items and the cache that is saved. With every item restored
  from the cache the function returns before the cache is saved and before the category
  groups are filled in.
\<close>

definition smart_refine_batch ::
  "(ustring \<Rightarrow> ustring) \<Rightarrow> cache \<Rightarrow> refiners \<Rightarrow> news_item list \<Rightarrow> error + (news_item list \<times> cache)" where
  "smart_refine_batch md5_hexdigest cache rf news_items =
     (if news_items = [] then Inr ([], cache)
      else case restore_cached md5_hexdigest cache news_items of
        Inl e \<Rightarrow> Inl e
      | Inr marked \<Rightarrow>
          let to_process = map fst (filter (\<lambda>(item, cached). \<not> cached) marked) in
          if to_process = [] then Inr (map fst marked, cache)
          else
            let to_process1 = (case groq rf of None \<Rightarrow> to_process | Some g \<Rightarrow> g to_process);
                to_process2 = (case paid rf of
                                 None \<Rightarrow> to_process1
                               | Some (api_type, refine) \<Rightarrow> paid_refine api_type refine 10 to_process1)
            in (case update_cache md5_hexdigest cache to_process2 of
                  Inl e \<Rightarrow> Inl e
                | Inr cache' \<Rightarrow>
                    Inr (map (fill_category_group (ascii ''other''))
                           (merge_back marked to_process2),
                         cache')))"

section \<open>Merging into the persisted store\<close>

text \<open>
  The URLs of the existing items, those that are truthy; a new item is kept when its URL
  (\<open>None\<close> when it has none) is not among them.
\<close>

definition existing_urls :: "news_item list \<Rightarrow> pyval set" where
  "existing_urls existing_news =
     set (map (\<lambda>news. get_or_none news ''url'')
            (filter (\<lambda>news. truthy (get_or_none news ''url'')) existing_news))"

definition remove_duplicates :: "news_item list \<Rightarrow> news_item list \<Rightarrow> news_item list" where
  "remove_duplicates existing_news new_news =
     filter (\<lambda>news. get_or_none news ''url'' \<notin> existing_urls existing_news) new_news"

text \<open>
  The store file \<open>news.csv\<close>: missing; present but damaged, so that \<open>pd.read_csv\<close>
  raises (\<open>Unreadable held\<close>, with \<open>held\<close> the records that had been saved into the
  file, which no run can read any more); or present with the records that
  \<open>to_dict('records')\<close> gives (an empty cell is \<open>PyNone\<close> in such a record).
\<close>

datatype news_csv = Missing | Unreadable "news_item list" | Table "news_item list"

fun read_csv :: "news_csv \<Rightarrow> error + news_item list" where
  "read_csv Missing = Inl FileNotFoundError"
| "read_csv (Unreadable held) = Inl ParserError"
| "read_csv (Table records) = Inr records"

fun csv_exists :: "news_csv \<Rightarrow> bool" where
  "csv_exists Missing = False"
| "csv_exists (Unreadable held) = True"
| "csv_exists (Table records) = True"

definition load_existing_news :: "news_csv \<Rightarrow> news_item list" where
  "load_existing_news store =
     (if \<not> csv_exists store then []
      else case read_csv store of Inl e \<Rightarrow> [] | Inr records \<Rightarrow> records)"

text \<open>
  \<open>news_item.get('priority', 'medium')\<close> compared with a string: a value that is not a
  string equals none.
\<close>

definition priority_is_high :: "news_item \<Rightarrow> bool" where
  "priority_is_high news_item =
     ((case news_item ''priority'' of None \<Rightarrow> PyStr (ascii ''medium'') | Some v \<Rightarrow> v)
        = PyStr (ascii ''high''))"

text \<open>
  The part of \<open>main\<close> between the fetch stages and the call of \<open>save_to_csv\<close> (from
  \<open>load_existing_news()\<close> to the test \<open>if unique_new_news\<close>), with \<open>all_raw_news\<close>
  what the fetch stages collected. The result is the argument of that call: \<open>Inr (Some
  all_news)\<close> when \<open>unique_new_news\<close> is not empty and \<open>save_to_csv(all_news)\<close> is
  called, \<open>Inr None\<close> when there is nothing new and it is not called, and \<open>Inl\<close> when
  \<open>smart_refine_batch\<close> raises before. What \<open>main\<close> does afterwards (the summary, its
  exit code) is not part of this function.
\<close>

definition main_all_news ::
  "(ustring \<Rightarrow> ustring) \<Rightarrow> cache \<Rightarrow> refiners \<Rightarrow> news_csv \<Rightarrow> news_item list
     \<Rightarrow> error + news_item list option" where
  "main_all_news md5_hexdigest cache rf store all_raw_news =
     (let existing_news = load_existing_news store;
          high_priority_news =
            filter priority_is_high all_raw_news;
          medium_priority_news =
            map (fill_category_group (ascii ''gaming''))
              (filter (\<lambda>n. \<not> priority_is_high n) all_raw_news)
      in case smart_refine_batch md5_hexdigest cache rf high_priority_news of
           Inl e \<Rightarrow> Inl e
         | Inr (refined, cache') \<Rightarrow>
             let all_refined_news =
                   filter (\<lambda>n. \<not> truthy (get_or_none n ''skip'')) refined
                   @ map (fill_category_group (ascii ''gaming'')) medium_priority_news;
                 unique_new_news = remove_duplicates existing_news all_refined_news;
                 all_news = existing_news @ unique_new_news
             in if unique_new_news \<noteq> [] then Inr (Some all_news) else Inr None)"

text \<open>
  The list that \<open>main\<close> builds for saving: \<open>all_news = existing_news +
  remove_duplicates(existing_news, new_news)\<close>.
\<close>

definition merge_news :: "news_item list \<Rightarrow> news_item list \<Rightarrow> news_item list" where
  "merge_news existing_news new_news = existing_news @ remove_duplicates existing_news new_news"

subsection \<open>\<open>save_to_csv\<close>\<close>










subsection \<open>The merge as the specification words it\<close>

text \<open>
  The specification's identity key, for comparison with the code: the URL of the item
  when it has one, otherwise a hash \<open>h\<close> of title and summary; and its merge, which
  keeps the new items whose identity key no persisted item has.
\<close>

definition text_of :: "pyval \<Rightarrow> ustring" where
  "text_of v = (case v of PyStr s \<Rightarrow> s | _ \<Rightarrow> [])"

definition spec_identity_key :: "(ustring \<Rightarrow> ustring) \<Rightarrow> news_item \<Rightarrow> ustring" where
  "spec_identity_key h item =
     (if truthy (get_or_none item ''url'') then text_of (get_or_none item ''url'')
      else h (text_of (get_or_none item ''title'') @ text_of (get_or_none item ''summary'')))"

definition spec_merge ::
  "(ustring \<Rightarrow> ustring) \<Rightarrow> news_item list \<Rightarrow> news_item list \<Rightarrow> news_item list" where
  "spec_merge h persisted new_items =
     persisted
     @ filter (\<lambda>n. spec_identity_key h n \<notin> spec_identity_key h ` set persisted) new_items"

subsection \<open>The cache key as the specification words it\<close>

text \<open>
  For comparison with \<open>item_cache_key\<close>: a hash of title and URL, and of title and
  summary for an item that has no URL.
\<close>

definition spec_cache_key :: "(ustring \<Rightarrow> ustring) \<Rightarrow> news_item \<Rightarrow> ustring" where
  "spec_cache_key md5_hexdigest item =
     (if truthy (get_or_none item ''url'') then
        get_cache_key md5_hexdigest
          (text_of (get_or_none item ''title'') @ text_of (get_or_none item ''url''))
      else
        get_cache_key md5_hexdigest
          (text_of (get_or_none item ''title'') @ text_of (get_or_none item ''summary'')))"

subsection \<open>Consistency of news type and category, as the specification words it\<close>

text \<open>
  The disaster and outage categories are the fine categories of the groups
  \<open>outage_block\<close> and \<open>social_crisis\<close> and the three such categories of the Naver
  path. An item is consistent when a gaming item carries none of them and a
  traffic-impact item does not carry the category \<open>gaming\<close>.
\<close>

definition disaster_outage_categories :: "ustring list" where
  "disaster_outage_categories =
     outage_block @ social_crisis @ [ascii ''disaster'', ascii ''conflict'', ascii ''outage'']"

definition type_category_consistent :: "news_item \<Rightarrow> bool" where
  "type_category_consistent item \<longleftrightarrow>
     (get_or_none item ''news_type'' = PyStr (ascii ''gaming'')
        \<longrightarrow> get_or_none item ''category'' \<notin> PyStr ` set disaster_outage_categories)
     \<and> (get_or_none item ''news_type'' = PyStr (ascii ''traffic_impact'')
        \<longrightarrow> get_or_none item ''category'' \<noteq> PyStr (ascii ''gaming''))"

section \<open>The maintenance scripts\<close>

subsection \<open>\<open>fix_category_groups.main\<close>\<close>



subsection \<open>The keyword tables of \<open>clean_news.py\<close>\<close>




subsection \<open>\<open>clean_news\<close>\<close>







subsection \<open>What \<open>clean_news\<close> deletes and rewrites, in words of its own\<close>



section \<open>Sample inputs\<close>

definition item_no_url :: news_item where
  "item_no_url =
     [''title'' \<mapsto> PyStr (ascii ''Flood warning''),
      ''summary'' \<mapsto> PyStr (ascii ''River rises''),
      ''url'' \<mapsto> PyStr []]"

definition item_a :: news_item where
  "item_a =
     [''title'' \<mapsto> PyStr (ascii ''Quake in Karachi''),
      ''url'' \<mapsto> PyStr (ascii ''https://example.com/a'')]"

definition item_a2 :: news_item where
  "item_a2 =
     [''title'' \<mapsto> PyStr (ascii ''Karachi earthquake''),
      ''url'' \<mapsto> PyStr (ascii ''https://example.com/a'')]"

definition item_b :: news_item where
  "item_b =
     [''title'' \<mapsto> PyStr (ascii ''PUBG update''),
      ''url'' \<mapsto> PyStr (ascii ''https://example.com/b'')]"

definition no_refiners :: refiners where
  "no_refiners = \<lparr>groq = None, paid = None\<rparr>"

definition entry_jakarta :: rss_entry where
  "entry_jakarta =
     \<lparr>entry_date = ascii ''2025-01-15'', entry_recent = True,
      entry_title = ascii ''Internet shutdown hits Jakarta'', entry_summary = [],
      entry_link = ascii ''https://example.com/jakarta'',
      entry_source = ascii ''Google News''\<rparr>"

definition entry_karachi :: rss_entry where
  "entry_karachi =
     \<lparr>entry_date = ascii ''2025-01-15'', entry_recent = True,
      entry_title = ascii ''Earthquake near Karachi'', entry_summary = ascii ''Tremors felt'',
      entry_link = ascii ''https://example.com/karachi'',
      entry_source = ascii ''Google News''\<rparr>"

text \<open>
  A stand-in for the digest that has the values of MD5 (as \<open>hashlib\<close> computes them)
  at the two texts it is used on.
\<close>

definition md5_sample :: "ustring \<Rightarrow> ustring" where
  "md5_sample text =
     (if text = ascii ''Flood warning'' then ascii ''42dd5d91e30144ec8f4aff4392e6a956''
      else if text = ascii ''Flood warningRiver rises'' then ascii ''f2daa195d8eb80811e81c90f3952764c''
      else [])"












section \<open>Properties of the category-group mappers\<close>

lemmas group_tables =
  outage_block_def social_crisis_def seasonal_calendar_def gaming_competitor_def
  fix_outage_block_def fix_social_crisis_def fix_seasonal_calendar_def fix_gaming_competitor_def

lemma fix_tables_same:
  "fix_outage_block = outage_block" "fix_social_crisis = social_crisis"
  "fix_seasonal_calendar = seasonal_calendar" "fix_gaming_competitor = gaming_competitor"
  by (simp_all add: fix_outage_block_def outage_block_def fix_social_crisis_def
      social_crisis_def fix_seasonal_calendar_def seasonal_calendar_def
      fix_gaming_competitor_def gaming_competitor_def)

lemma empty_category_other: "map_to_group_category (PyStr []) = ascii ''other''"
  by (simp add: outage_block_def social_crisis_def seasonal_calendar_def
      gaming_competitor_def ascii_def)

lemma fix_map_is_core_after_normalising:
  "fix_map_to_group_category (Str s) = map_to_group_category (PyStr (lower (strip s)))"
proof (cases "s = []")
  case True
  then show ?thesis
    using empty_category_other by (simp add: strip_def lower_def)
next
  case False
  then show ?thesis
    by (simp add: fix_tables_same Let_def)
qed

text \<open>
  The repair mapper lower-cases beyond ASCII as Python does: with the Kelvin sign for the
  \<open>k\<close> of \<open>protest_strike\<close> it finds the category, the core mapper does not.
\<close>

lemma kelvin_sign_lowered:
  "lower (ascii ''protest_stri'' @ [0x212A] @ ascii ''e'') = ascii ''protest_strike''
   \<and> fix_map_to_group_category (Str (ascii ''protest_stri'' @ [0x212A] @ ascii ''e''))
       = ascii ''social_crisis''
   \<and> map_to_group_category (PyStr (ascii ''protest_stri'' @ [0x212A] @ ascii ''e''))
       = ascii ''other''"
  by (simp add: outage_block_def social_crisis_def seasonal_calendar_def gaming_competitor_def
      fix_outage_block_def fix_social_crisis_def fix_seasonal_calendar_def
      fix_gaming_competitor_def ascii_def lower_def lower_cp_def strip_def isspace_def)

text \<open>
  C9, as stated: the repair script's mapper and the core mapper return the same group for
  every category string. This fails on a string that is not already lower-case: the
  repair mapper lower-cases \<open>GAMING\<close> and finds it in the gaming table, the core mapper
  looks \<open>GAMING\<close> up as it is and answers \<open>other\<close>.
\<close>

theorem mappers_differ_on_GAMING:
  "fix_map_to_group_category (Str (ascii ''GAMING'')) = ascii ''gaming_competitor''
   \<and> map_to_group_category (PyStr (ascii ''GAMING'')) = ascii ''other''
   \<and> fix_map_to_group_category (Str (ascii ''GAMING''))
       \<noteq> map_to_group_category (PyStr (ascii ''GAMING''))"
  by (simp add: group_tables ascii_def lower_def lower_cp_def strip_def isspace_def)

text \<open>
  C9, amended: on every category string the repair mapper returns what the core mapper
  returns on that string stripped of surrounding white space and lower-cased. Hence the
  two mappers agree on every string that stripping and lower-casing leave unchanged.
\<close>

theorem fix_mapper_refines_core:
  "fix_map_to_group_category (Str s) = map_to_group_category (PyStr (lower (strip s)))
   \<and> (lower (strip s) = s \<longrightarrow>
        fix_map_to_group_category (Str s) = map_to_group_category (PyStr s))"
  using fix_map_is_core_after_normalising [of s] by simp

theorem fix_mapper_refines_core_witness:
  "lower (strip (ascii ''school_calendar'')) = ascii ''school_calendar''
   \<and> fix_map_to_group_category (Str (ascii ''school_calendar''))
       = map_to_group_category (PyStr (ascii ''school_calendar''))
   \<and> map_to_group_category (PyStr (ascii ''school_calendar'')) = ascii ''seasonal_calendar''"
proof -
  have h: "lower (strip (ascii ''school_calendar'')) = ascii ''school_calendar''"
    by (simp add: ascii_def lower_def lower_cp_def strip_def isspace_def)
  have g: "map_to_group_category (PyStr (ascii ''school_calendar'')) = ascii ''seasonal_calendar''"
    by (simp add: group_tables ascii_def)
  show ?thesis
    using h g fix_mapper_refines_core [of "ascii ''school_calendar''"] by simp
qed

section \<open>Properties of the classifiers\<close>

lemmas str_eval = ascii_def lower_def lower_cp_def

lemma startswith_iff: "startswith t p \<longleftrightarrow> (\<exists>b. t = p @ b)"
  by (induction t p rule: startswith.induct) auto

lemma str_in_iff: "str_in p t \<longleftrightarrow> (\<exists>a b. t = a @ p @ b)"
proof (induction t)
  case Nil
  then show ?case by simp
next
  case (Cons d t)
  show ?case
  proof
    assume "str_in p (d # t)"
    then consider "startswith (d # t) p" | "str_in p t" by auto
    then show "\<exists>a b. d # t = a @ p @ b"
    proof cases
      case 1
      then obtain b where "d # t = p @ b" by (auto simp: startswith_iff)
      then have "d # t = [] @ p @ b" by simp
      then show ?thesis by blast
    next
      case 2
      with Cons obtain a b where "t = a @ p @ b" by blast
      then have "d # t = (d # a) @ p @ b" by simp
      then show ?thesis by blast
    qed
  next
    assume "\<exists>a b. d # t = a @ p @ b"
    then obtain a b where ab: "d # t = a @ p @ b" by blast
    show "str_in p (d # t)"
    proof (cases a)
      case Nil
      with ab have "startswith (d # t) p" by (auto simp: startswith_iff)
      then show ?thesis by simp
    next
      case (Cons x a')
      with ab have "t = a' @ p @ b" by simp
      with Cons.IH have "str_in p t" by blast
      then show ?thesis by simp
    qed
  qed
qed

lemma any_keyword_in_iff:
  "any_keyword_in kws text \<longleftrightarrow> (\<exists>kw \<in> set kws. \<exists>a b. text = a @ lower kw @ b)"
  by (simp add: any_keyword_in_def list_ex_iff str_in_iff)

text \<open>
  C3, as stated: a text that contains any exclusion pattern is classified
  \<open>('low', None, None)\<close> on the primary path and not relevant on the secondary path.
  The two paths have lists of their own: \<open>PUBG concert\<close> contains the pattern
  \<open>concert\<close> of \<open>EXCLUDE_PATTERNS\<close> and is \<open>low\<close> on the primary path, but no
  keyword of \<open>NEGATIVE_KEYWORDS\<close>, and \<open>is_relevant_news\<close> returns
  \<open>(True, 'gaming', 'gaming', 'medium')\<close> for it.
\<close>

theorem pubg_concert_passes_secondary_path:
  "(\<exists>pattern \<in> set EXCLUDE_PATTERNS.
        \<exists>a b. lower (ascii ''PUBG concert'' @ ascii '' '' @ []) = a @ lower pattern @ b)
   \<and> classify_news_priority (ascii ''PUBG concert'') [] = (ascii ''low'', PyNone, PyNone)
   \<and> is_relevant_news (ascii ''PUBG concert'') []
       = (True, PyStr (ascii ''gaming''), PyStr (ascii ''gaming''), PyStr (ascii ''medium''))"
proof -
  let ?text = "lower (ascii ''PUBG concert'' @ ascii '' '' @ [])"
  have split: "?text = ascii ''pubg '' @ lower (ascii ''concert'') @ ascii '' ''"
    by (simp add: str_eval)
  have "ascii ''concert'' \<in> set EXCLUDE_PATTERNS"
    by (simp add: EXCLUDE_PATTERNS_def)
  with split have e: "\<exists>pattern \<in> set EXCLUDE_PATTERNS. \<exists>a b. ?text = a @ lower pattern @ b"
    by blast
  then have c: "classify_news_priority (ascii ''PUBG concert'') [] = (ascii ''low'', PyNone, PyNone)"
    by (simp add: classify_news_priority_def any_keyword_in_iff)
  have n: "\<not> any_keyword_in NEGATIVE_KEYWORDS ?text"
    by (simp add: any_keyword_in_def NEGATIVE_KEYWORDS_def str_eval)
  have g: "any_keyword_in GAMING_REQUIRED_KEYWORDS ?text"
    by (simp add: any_keyword_in_def GAMING_REQUIRED_KEYWORDS_def str_eval)
  have r: "is_relevant_news (ascii ''PUBG concert'') []
       = (True, PyStr (ascii ''gaming''), PyStr (ascii ''gaming''), PyStr (ascii ''medium''))"
    using n g by (simp add: is_relevant_news_def)
  show ?thesis using e c r by blast
qed

text \<open>
  C3, amended: whenever the lower-cased text \<open>title + ' ' + summary\<close> contains a
  pattern of \<open>EXCLUDE_PATTERNS\<close> (lower-cased, as the code compares it) as a substring,
  the primary path \<open>classify_news_priority\<close> returns \<open>('low', None, None)\<close>; and
  whenever it contains a keyword of the secondary path's own list \<open>NEGATIVE_KEYWORDS\<close>,
  \<open>is_relevant_news\<close> returns \<open>(False, None, None, None)\<close>. Nothing is assumed about
  the other keyword tables, so the result is the same when critical or inclusion keywords
  occur in the text as well.
\<close>

theorem exclusion_wins:
  "((\<exists>pattern \<in> set EXCLUDE_PATTERNS.
        \<exists>a b. lower (title @ ascii '' '' @ summary) = a @ lower pattern @ b)
      \<longrightarrow> classify_news_priority title summary = (ascii ''low'', PyNone, PyNone))
   \<and> ((\<exists>neg_kw \<in> set NEGATIVE_KEYWORDS.
        \<exists>a b. lower (title @ ascii '' '' @ summary) = a @ lower neg_kw @ b)
      \<longrightarrow> is_relevant_news title summary = (False, PyNone, PyNone, PyNone))"
  by (simp add: classify_news_priority_def is_relevant_news_def any_keyword_in_iff Let_def)

theorem exclusion_wins_witness:
  "(\<exists>pattern \<in> set EXCLUDE_PATTERNS.
        \<exists>a b. lower (ascii ''PUBG launch protest'' @ ascii '' '' @ ascii ''power outage'')
                = a @ lower pattern @ b)
   \<and> (\<exists>neg_kw \<in> set NEGATIVE_KEYWORDS.
        \<exists>a b. lower (ascii ''PUBG launch protest'' @ ascii '' '' @ ascii ''power outage'')
                = a @ lower neg_kw @ b)
   \<and> any_keyword_in HIGH_PRIORITY_KEYWORDS_critical
        (lower (ascii ''PUBG launch protest'' @ ascii '' '' @ ascii ''power outage''))
   \<and> any_keyword_in GAMING_REQUIRED_KEYWORDS
        (lower (ascii ''PUBG launch protest'' @ ascii '' '' @ ascii ''power outage''))
   \<and> classify_news_priority (ascii ''PUBG launch protest'') (ascii ''power outage'')
        = (ascii ''low'', PyNone, PyNone)
   \<and> is_relevant_news (ascii ''PUBG launch protest'') (ascii ''power outage'')
        = (False, PyNone, PyNone, PyNone)"
proof -
  let ?text = "lower (ascii ''PUBG launch protest'' @ ascii '' '' @ ascii ''power outage'')"
  have split: "?text = ascii ''pubg '' @ lower (ascii ''launch'') @ ascii '' protest power outage''"
    by (simp add: str_eval)
  have "ascii ''launch'' \<in> set EXCLUDE_PATTERNS"
    by (simp add: EXCLUDE_PATTERNS_def)
  with split have e: "\<exists>pattern \<in> set EXCLUDE_PATTERNS. \<exists>a b. ?text = a @ lower pattern @ b"
    by blast
  have "ascii ''launch'' \<in> set NEGATIVE_KEYWORDS"
    by (simp add: NEGATIVE_KEYWORDS_def)
  with split have n: "\<exists>neg_kw \<in> set NEGATIVE_KEYWORDS. \<exists>a b. ?text = a @ lower neg_kw @ b"
    by blast
  have c: "any_keyword_in HIGH_PRIORITY_KEYWORDS_critical ?text"
    by (simp add: any_keyword_in_def HIGH_PRIORITY_KEYWORDS_critical_def str_eval)
  have g: "any_keyword_in GAMING_REQUIRED_KEYWORDS ?text"
    by (simp add: any_keyword_in_def GAMING_REQUIRED_KEYWORDS_def str_eval)
  from exclusion_wins [of "ascii ''PUBG launch protest''" "ascii ''power outage''"] e n
  have "classify_news_priority (ascii ''PUBG launch protest'') (ascii ''power outage'')
          = (ascii ''low'', PyNone, PyNone)
        \<and> is_relevant_news (ascii ''PUBG launch protest'') (ascii ''power outage'')
          = (False, PyNone, PyNone, PyNone)"
    by blast
  with e n c g show ?thesis by blast
qed


section \<open>Properties of the merge\<close>

lemma in_existing_urls:
  "u \<in> existing_urls P \<longleftrightarrow> truthy u \<and> (\<exists>p \<in> set P. get_or_none p ''url'' = u)"
  by (auto simp: existing_urls_def)

lemma existing_urls_append: "existing_urls (P @ Q) = existing_urls P \<union> existing_urls Q"
  by (simp add: existing_urls_def)

lemma kept_url_in_merged:
  assumes "n \<in> set N" "truthy (get_or_none n ''url'')"
  shows "get_or_none n ''url'' \<in> existing_urls (merge_news P N)"
proof (cases "get_or_none n ''url'' \<in> existing_urls P")
  case True
  then show ?thesis by (simp add: merge_news_def existing_urls_append)
next
  case False
  with assms have "n \<in> set (remove_duplicates P N)" by (simp add: remove_duplicates_def)
  with assms(2) have "get_or_none n ''url'' \<in> existing_urls (remove_duplicates P N)"
    by (auto simp: in_existing_urls)
  then show ?thesis by (simp add: merge_news_def existing_urls_append)
qed

lemmas sample_items = item_a_def item_a2_def item_b_def item_no_url_def

text \<open>
  C4, as stated: merging the same new items a second time adds nothing. This fails for an
  item whose URL is empty: an empty URL is never entered into the set of existing URLs,
  so the item is kept again by the second \<open>remove_duplicates\<close>.
\<close>

theorem remerge_adds_again:
  "remove_duplicates (merge_news [] [item_no_url]) [item_no_url] = [item_no_url]"
  by (simp add: merge_news_def remove_duplicates_def existing_urls_def get_or_none_def item_no_url_def)

text \<open>
  C4, amended: when every new item has a truthy (non-empty) URL, the second
  \<open>remove_duplicates\<close> against the merged list returns the empty list.
\<close>

theorem remerge_adds_nothing:
  assumes "\<forall>n \<in> set N. truthy (get_or_none n ''url'')"
  shows "remove_duplicates (merge_news P N) N = []"
  unfolding remove_duplicates_def filter_empty_conv
  using assms kept_url_in_merged by (auto simp: remove_duplicates_def)

theorem remerge_adds_nothing_witness:
  "truthy (get_or_none item_a2 ''url'') \<and> truthy (get_or_none item_b ''url'')
   \<and> merge_news [item_a] [item_a2, item_b] = [item_a, item_b]
   \<and> remove_duplicates (merge_news [item_a] [item_a2, item_b]) [item_a2, item_b] = []"
proof -
  have t: "truthy (get_or_none item_a2 ''url'') \<and> truthy (get_or_none item_b ''url'')"
    by (simp add: sample_items get_or_none_def ascii_def)
  then have h: "\<forall>n \<in> set [item_a2, item_b]. truthy (get_or_none n ''url'')"
    by simp
  have m: "merge_news [item_a] [item_a2, item_b] = [item_a, item_b]"
    by (simp add: merge_news_def remove_duplicates_def existing_urls_def get_or_none_def
        sample_items ascii_def)
  have r: "remove_duplicates (merge_news [item_a] [item_a2, item_b]) [item_a2, item_b] = []"
    using remerge_adds_nothing [OF h, of "[item_a]"] .
  show ?thesis using t m r by blast
qed

text \<open>
  C6: two new items of one batch with the same URL, and nothing persisted. The claim
  expects one item with that URL after the merge; \<open>remove_duplicates\<close> compares the
  new items with the existing ones only, so both are kept.
\<close>

theorem same_url_batch_both_survive:
  "merge_news [] [item_a, item_a2] = [item_a, item_a2]
   \<and> length (filter (\<lambda>n. get_or_none n ''url'' = PyStr (ascii ''https://example.com/a''))
                (merge_news [] [item_a, item_a2])) = 2"
  by (simp add: merge_news_def remove_duplicates_def existing_urls_def get_or_none_def
      sample_items)

text \<open>
  C5, as stated: the merge keeps the new items whose identity key, the URL or else a hash
  of title and summary, is not among the persisted ones. The code has no such fallback:
  a new item without URL is kept although a persisted item has the same title and
  summary, so the merge of the code has two items where the merge of the claim has one.
\<close>

theorem spec_merge_differs_without_url:
  "length (spec_merge (\<lambda>t. t) [item_no_url] [item_no_url]) = 1
   \<and> length (merge_news [item_no_url] [item_no_url]) = 2"
  by (simp add: spec_merge_def spec_identity_key_def merge_news_def remove_duplicates_def
      existing_urls_def get_or_none_def item_no_url_def)

lemma spec_key_is_url:
  assumes "n ''url'' = Some (PyStr u)" "u \<noteq> []"
  shows "spec_identity_key h n = u \<and> get_or_none n ''url'' = PyStr u
         \<and> truthy (get_or_none n ''url'')"
  using assms by (simp add: spec_identity_key_def get_or_none_def text_of_def)

lemma merge_is_spec_merge_with_urls:
  assumes "\<forall>n \<in> set (P @ N). \<exists>u. u \<noteq> [] \<and> n ''url'' = Some (PyStr u)"
  shows "merge_news P N = spec_merge h P N"
proof -
  have key: "get_or_none p ''url'' = PyStr (spec_identity_key h p)
             \<and> truthy (get_or_none p ''url'')"
    if "p \<in> set (P @ N)" for p
  proof -
    from that assms obtain v where v: "v \<noteq> []" "p ''url'' = Some (PyStr v)" by blast
    show ?thesis using spec_key_is_url [of p v h] v by simp
  qed
  have "get_or_none n ''url'' \<notin> existing_urls P
          \<longleftrightarrow> spec_identity_key h n \<notin> spec_identity_key h ` set P"
    if "n \<in> set N" for n
  proof -
    have "(\<exists>p \<in> set P. get_or_none p ''url'' = get_or_none n ''url'')
            \<longleftrightarrow> (\<exists>p \<in> set P. spec_identity_key h p = spec_identity_key h n)"
      using key that by simp
    moreover have "truthy (get_or_none n ''url'')"
    proof -
      from that have "n \<in> set (P @ N)" by simp
      from key [OF this] show ?thesis by (rule conjunct2)
    qed
    ultimately show ?thesis
      unfolding in_existing_urls image_iff by metis
  qed
  then have "remove_duplicates P N
               = filter (\<lambda>n. spec_identity_key h n \<notin> spec_identity_key h ` set P) N"
    unfolding remove_duplicates_def by (intro filter_cong refl)
  then show ?thesis
    by (simp add: merge_news_def spec_merge_def)
qed

text \<open>
  C5, amended: the merge result is the persisted list followed by the new items, in their
  order, except those whose URL is truthy and is the URL of a persisted item; a new item
  without URL is always kept. The persisted list is the unchanged prefix of the result.
  When every item has a non-empty URL string, this is the merge of the claim, for any
  hash.
\<close>

theorem merge_by_url:
  "merge_news P N =
     P @ filter (\<lambda>n. \<not> (truthy (get_or_none n ''url'')
                       \<and> (\<exists>p \<in> set P. get_or_none p ''url'' = get_or_none n ''url''))) N
   \<and> take (length P) (merge_news P N) = P
   \<and> ((\<forall>n \<in> set (P @ N). \<exists>u. u \<noteq> [] \<and> n ''url'' = Some (PyStr u))
        \<longrightarrow> merge_news P N = spec_merge h P N)"
  using merge_is_spec_merge_with_urls [of P N h]
  by (simp add: merge_news_def remove_duplicates_def in_existing_urls)

theorem merge_by_url_witness:
  "item_no_url ''url'' = Some (PyStr [])
   \<and> merge_news [item_a] [item_a2, item_no_url, item_b] = [item_a, item_no_url, item_b]
   \<and> list_all (\<lambda>n. \<exists>u. u \<noteq> [] \<and> n ''url'' = Some (PyStr u)) ([item_a] @ [item_a2, item_b])
   \<and> merge_news [item_a] [item_a2, item_b] = [item_a, item_b]
   \<and> spec_merge (\<lambda>t. t) [item_a] [item_a2, item_b] = [item_a, item_b]"
proof -
  have h: "\<forall>n \<in> set ([item_a] @ [item_a2, item_b]). \<exists>u. u \<noteq> [] \<and> n ''url'' = Some (PyStr u)"
    by (simp add: sample_items ascii_def)
  have m: "merge_news [item_a] [item_a2, item_b] = [item_a, item_b]"
    by (simp add: merge_news_def remove_duplicates_def existing_urls_def get_or_none_def
        sample_items ascii_def)
  have nu: "item_no_url ''url'' = Some (PyStr [])"
    by (simp add: item_no_url_def)
  have k:"filter (\<lambda>n. \<not> (truthy (get_or_none n ''url'')
                       \<and> (\<exists>p \<in> set [item_a]. get_or_none p ''url'' = get_or_none n ''url'')))
             [item_a2, item_no_url, item_b] = [item_no_url, item_b]"
    by (simp add: get_or_none_def sample_items ascii_def)
  have e: "merge_news [item_a] [item_a2, item_no_url, item_b] = [item_a, item_no_url, item_b]"
    using merge_by_url [of "[item_a]" "[item_a2, item_no_url, item_b]" "\<lambda>t. t", THEN conjunct1] k
    by simp
  have r: "merge_news [item_a] [item_a2, item_b] = spec_merge (\<lambda>t. t) [item_a] [item_a2, item_b]"
    using merge_by_url [of "[item_a]" "[item_a2, item_b]" "\<lambda>t. t", THEN conjunct2, THEN conjunct2] h
    by blast
  have la: "list_all (\<lambda>n. \<exists>u. u \<noteq> [] \<and> n ''url'' = Some (PyStr u))
              ([item_a] @ [item_a2, item_b])"
    using h by (simp add: list_all_iff)
  from r m have sp: "spec_merge (\<lambda>t. t) [item_a] [item_a2, item_b] = [item_a, item_b]"
    by simp
  show ?thesis
    using nu e la m sp by blast
qed


section \<open>Properties of the RSS path\<close>

lemma jakarta_not_excluded:
  "\<not> any_keyword_in EXCLUDE_PATTERNS
       (lower (ascii ''Internet shutdown hits Jakarta'' @ ascii '' '' @ []))"
  by (simp add: any_keyword_in_def EXCLUDE_PATTERNS_def str_eval)

lemma jakarta_classified:
  "classify_news_priority (ascii ''Internet shutdown hits Jakarta'') []
     = (ascii ''high'', PyStr (ascii ''traffic_impact''), PyNone)"
  using jakarta_not_excluded
  by (simp add: classify_news_priority_def any_keyword_in_def
      HIGH_PRIORITY_KEYWORDS_critical_def str_eval)

lemma jakarta_fetched:
  "fetch_news_from_rss [ascii ''Indonesia''] (ascii ''Indonesia internet'') [entry_jakarta]
     = [[''date'' \<mapsto> PyStr (ascii ''2025-01-15''),
         ''country'' \<mapsto> PyNone,
         ''continent'' \<mapsto> PyNone,
         ''title'' \<mapsto> PyStr (ascii ''Internet shutdown hits Jakarta''),
         ''summary'' \<mapsto> PyStr [],
         ''url'' \<mapsto> PyStr (ascii ''https://example.com/jakarta''),
         ''source'' \<mapsto> PyStr (ascii ''Google News''),
         ''category'' \<mapsto> PyStr (ascii ''gaming''),
         ''news_type'' \<mapsto> PyStr (ascii ''traffic_impact''),
         ''priority'' \<mapsto> PyStr (ascii ''high''),
         ''country'' \<mapsto> PyStr (ascii ''Indonesia''),
         ''continent'' \<mapsto> PyStr (ascii ''OTHER'')]]"
proof -
  have c: "classify_news_priority (entry_title entry_jakarta) (take 500 (entry_summary entry_jakarta))
     = (ascii ''high'', PyStr (ascii ''traffic_impact''), PyNone)"
    using jakarta_classified by (simp add: entry_jakarta_def)
  have k: "str_in (lower (ascii ''Indonesia'')) (lower (ascii ''Indonesia internet''))"
    by (simp add: str_eval)
  have l: "ascii ''high'' \<noteq> ascii ''low''" by (simp add: ascii_def)
  have g: "get_continent (ascii ''Indonesia'') = ascii ''OTHER''"
    by (simp add: get_continent_def continent_map_def ascii_def)
  have n: "ascii ''traffic_impact'' \<noteq> []" by (simp add: ascii_def)
  show ?thesis
    by (simp add: fetch_news_from_rss_def List.map_filter_simps rss_news_item_def c k l g n)
       (simp add: entry_jakarta_def)
qed

text \<open>
  C1: the item \<open>Internet shutdown hits Jakarta\<close> with an empty summary, no refinement
  adapter, an empty cache (so that the digest plays no part) and no store. The classifier
  yields \<open>('high', 'traffic_impact', None)\<close>, as the claim says. The item that
  \<open>fetch_news_from_rss\<close> builds from this result, however, has the category
  \<open>gaming\<close> (\<open>auto_category if auto_category else 'gaming'\<close>), and the list that
  \<open>main\<close> hands to \<open>save_to_csv\<close> holds it with news type \<open>traffic_impact\<close>,
  category \<open>gaming\<close> and category group \<open>gaming_competitor\<close>: the category is not left
  unresolved.
\<close>

theorem jakarta_item_category:
  "classify_news_priority (ascii ''Internet shutdown hits Jakarta'') []
     = (ascii ''high'', PyStr (ascii ''traffic_impact''), PyNone)
   \<and> (case main_all_news md5_hexdigest Map.empty no_refiners Missing
              (fetch_news_from_rss [ascii ''Indonesia''] (ascii ''Indonesia internet'')
                 [entry_jakarta]) of
         Inr (Some all_news) \<Rightarrow>
           map (\<lambda>n. (get_or_none n ''news_type'', get_or_none n ''category'',
                      get_or_none n ''category_group'')) all_news
       | _ \<Rightarrow> [])
       = [(PyStr (ascii ''traffic_impact''), PyStr (ascii ''gaming''),
           PyStr (ascii ''gaming_competitor''))]"
proof -
  have h: "ascii ''high'' \<noteq> ascii ''medium''" by (simp add: ascii_def)
  have g: "map_to_group_category (PyStr (ascii ''gaming'')) = ascii ''gaming_competitor''"
    by (simp add: outage_block_def social_crisis_def seasonal_calendar_def
        gaming_competitor_def ascii_def)
  show ?thesis
    unfolding jakarta_fetched
    by (simp add: jakarta_classified main_all_news_def load_existing_news_def smart_refine_batch_def
        priority_is_high_def item_cache_key_def get_or_empty_def get_or_none_def
        no_refiners_def fill_category_group_def remove_duplicates_def existing_urls_def
        cache_entry_def h g Let_def del: map_to_group_category.simps)
qed


lemma karachi_not_excluded:
  "\<not> any_keyword_in EXCLUDE_PATTERNS
       (lower (ascii ''Earthquake near Karachi'' @ ascii '' '' @ ascii ''Tremors felt''))"
  by (simp add: any_keyword_in_def EXCLUDE_PATTERNS_def str_eval)

lemma karachi_classified:
  "classify_news_priority (ascii ''Earthquake near Karachi'') (ascii ''Tremors felt'')
     = (ascii ''high'', PyStr (ascii ''traffic_impact''), PyNone)"
  using karachi_not_excluded
  by (simp add: classify_news_priority_def any_keyword_in_def
      HIGH_PRIORITY_KEYWORDS_critical_def str_eval)

lemma scan_medium_rules_consistent:
  "scan_medium_rules MEDIUM_RULES text = Some (p, nt, c) \<Longrightarrow>
     (nt = PyStr (ascii ''gaming'') \<and> c = PyStr (ascii ''gaming''))
     \<or> (nt = PyStr (ascii ''traffic_impact'')
         \<and> (c = PyStr (ascii ''holiday'') \<or> c = PyStr (ascii ''school_calendar'')))"
  unfolding MEDIUM_RULES_def
  by (auto simp: medium_return_def split: if_splits)

lemma classifier_consistent:
  assumes "classify_news_priority title summary = (p, nt, c)"
  shows "(nt = PyStr (ascii ''gaming'') \<longrightarrow> c = PyStr (ascii ''gaming''))
         \<and> (nt = PyStr (ascii ''traffic_impact'') \<longrightarrow> c \<noteq> PyStr (ascii ''gaming''))"
proof -
  have d: "ascii ''gaming'' \<noteq> ascii ''traffic_impact''" "ascii ''holiday'' \<noteq> ascii ''gaming''"
    "ascii ''school_calendar'' \<noteq> ascii ''gaming''"
    by (simp_all add: ascii_def)
  show ?thesis
    using assms scan_medium_rules_consistent [of "lower (title @ ascii '' '' @ summary)"] d
    by (auto simp: classify_news_priority_def Let_def split: if_splits option.splits)
qed

text \<open>
  C2: the classifier itself assigns news type and category together and consistently
  (\<open>classifier_consistent\<close>). The item that \<open>fetch_news_from_rss\<close> builds for a
  high-priority result is not consistent: for the entry \<open>Earthquake near Karachi\<close> it
  has news type \<open>traffic_impact\<close> and category \<open>gaming\<close>.
\<close>

theorem karachi_item_inconsistent:
  "(case rss_news_item [] (ascii ''Pakistan'') entry_karachi of
      Some item \<Rightarrow> (get_or_none item ''news_type'', get_or_none item ''category'',
                    type_category_consistent item)
    | None \<Rightarrow> (PyNone, PyNone, True))
   = (PyStr (ascii ''traffic_impact''), PyStr (ascii ''gaming''), False)"
proof -
  have c: "classify_news_priority (entry_title entry_karachi) (take 500 (entry_summary entry_karachi))
     = (ascii ''high'', PyStr (ascii ''traffic_impact''), PyNone)"
    using karachi_classified by (simp add: entry_karachi_def ascii_def)
  have l: "ascii ''high'' \<noteq> ascii ''low''" by (simp add: ascii_def)
  have n: "ascii ''traffic_impact'' \<noteq> []" by (simp add: ascii_def)
  have r: "entry_recent entry_karachi" by (simp add: entry_karachi_def)
  show ?thesis
    by (simp add: rss_news_item_def c l n r type_category_consistent_def get_or_none_def)
qed

theorem karachi_item_inconsistent_witness:
  "\<exists>item. rss_news_item [] (ascii ''Pakistan'') entry_karachi = Some item
      \<and> get_or_none item ''news_type'' = PyStr (ascii ''traffic_impact'')
      \<and> get_or_none item ''category'' = PyStr (ascii ''gaming'')
      \<and> \<not> type_category_consistent item"
  using karachi_item_inconsistent
  by (cases "rss_news_item [] (ascii ''Pakistan'') entry_karachi") auto

section \<open>Properties of the cache key\<close>

text \<open>
  C7, as stated: for an item without URL the cache key is a hash of title and summary.
  The code hashes \<open>item.get('title', '') + item.get('url', '')\<close> for every item, which
  for an item without URL is the title alone: for the title \<open>Flood warning\<close> and the
  summary \<open>River rises\<close> the key is the first 16 characters of the MD5 of
  \<open>Flood warning\<close>, not of \<open>Flood warningRiver rises\<close>.
\<close>

theorem cache_key_differs_from_title_summary:
  "item_cache_key md5_sample item_no_url = Inr (ascii ''42dd5d91e30144ec'')
   \<and> spec_cache_key md5_sample item_no_url = ascii ''f2daa195d8eb8081''
   \<and> item_cache_key md5_sample item_no_url \<noteq> Inr (spec_cache_key md5_sample item_no_url)"
  by (simp add: item_cache_key_def spec_cache_key_def get_cache_key_def get_or_empty_def
      get_or_none_def text_of_def item_no_url_def md5_sample_def ascii_def)

text \<open>
  C7, amended: for an item whose title and URL are strings (or missing, which counts as
  empty) the key is the first 16 characters of the digest of title followed by URL; for
  an item whose URL is missing or empty that is the digest of the title alone, and the
  summary plays no part. The cache is looked up and updated under this same key.
\<close>

theorem cache_key_is_title_url:
  "(get_or_empty item ''title'' = PyStr t \<and> get_or_empty item ''url'' = PyStr u
      \<longrightarrow> item_cache_key md5_hexdigest item = Inr (take 16 (md5_hexdigest (t @ u))))
   \<and> (get_or_empty item ''title'' = PyStr t
        \<and> (item ''url'' = None \<or> item ''url'' = Some (PyStr []))
      \<longrightarrow> item_cache_key md5_hexdigest item = Inr (take 16 (md5_hexdigest t)))
   \<and> (item_cache_key md5_hexdigest item = Inr k
      \<longrightarrow> restore_cached md5_hexdigest cache [item]
            = Inr [case cache k of Some cached \<Rightarrow> (item ++ cached, True) | None \<Rightarrow> (item, False)]
          \<and> update_cache md5_hexdigest cache [item] = Inr (cache(k \<mapsto> cache_entry item)))"
  by (auto simp: item_cache_key_def get_cache_key_def get_or_empty_def split: option.splits)

theorem cache_key_is_title_url_witness:
  "get_or_empty item_a ''title'' = PyStr (ascii ''Quake in Karachi'')
   \<and> get_or_empty item_a ''url'' = PyStr (ascii ''https://example.com/a'')
   \<and> item_cache_key (\<lambda>t. t) item_a = Inr (ascii ''Quake in Karachi'')
   \<and> get_or_empty item_no_url ''title'' = PyStr (ascii ''Flood warning'')
   \<and> (item_no_url ''url'' = None \<or> item_no_url ''url'' = Some (PyStr []))
   \<and> item_cache_key md5_sample item_no_url = Inr (ascii ''42dd5d91e30144ec'')
   \<and> update_cache md5_sample Map.empty [item_no_url]
       = Inr [ascii ''42dd5d91e30144ec'' \<mapsto> cache_entry item_no_url]"
proof -
  have a: "get_or_empty item_a ''title'' = PyStr (ascii ''Quake in Karachi'')
           \<and> get_or_empty item_a ''url'' = PyStr (ascii ''https://example.com/a'')"
    by (simp add: get_or_empty_def item_a_def)
  have b: "get_or_empty item_no_url ''title'' = PyStr (ascii ''Flood warning'')
           \<and> (item_no_url ''url'' = None \<or> item_no_url ''url'' = Some (PyStr []))"
    by (simp add: get_or_empty_def item_no_url_def)
  have ka: "item_cache_key (\<lambda>t. t) item_a = Inr (ascii ''Quake in Karachi'')"
    using a cache_key_is_title_url [of item_a "ascii ''Quake in Karachi''"
        "ascii ''https://example.com/a''" "\<lambda>t. t"]
    by (simp add: ascii_def)
  have kb: "item_cache_key md5_sample item_no_url = Inr (ascii ''42dd5d91e30144ec'')"
    using b cache_key_is_title_url [of item_no_url "ascii ''Flood warning''" _ md5_sample]
    by (simp add: md5_sample_def ascii_def)
  have st: "update_cache md5_sample Map.empty [item_no_url]
       = Inr [ascii ''42dd5d91e30144ec'' \<mapsto> cache_entry item_no_url]"
    using kb cache_key_is_title_url [of item_no_url _ _ md5_sample "ascii ''42dd5d91e30144ec''" Map.empty]
    by blast
  show ?thesis using a b ka kb st by blast
qed


section \<open>Properties of loading the store\<close>

text \<open>
  C10: when the store file is missing or cannot be read, \<open>load_existing_news\<close>
  returns the empty list, and \<open>main\<close> goes on exactly as on a readable store without
  records: the failed read is not an exception of the run.
\<close>

theorem load_failure_is_empty_history:
  assumes "store = Missing \<or> store = Unreadable held"
  shows "load_existing_news store = []
         \<and> main_all_news md5_hexdigest cache rf store all_raw_news
             = main_all_news md5_hexdigest cache rf (Table []) all_raw_news"
  using assms by (auto simp: main_all_news_def load_existing_news_def)

theorem load_failure_is_empty_history_witness:
  "(Unreadable [item_a] = Missing \<or> Unreadable [item_a] = Unreadable [item_a])
   \<and> load_existing_news (Unreadable [item_a]) = []
   \<and> main_all_news (\<lambda>t. t) Map.empty no_refiners (Unreadable [item_a]) [item_b]
       = Inr (Some [fill_category_group (ascii ''gaming'') item_b])"
proof -
  have h: "Unreadable [item_a] = Missing \<or> Unreadable [item_a] = Unreadable [item_a]"
    by simp
  have f: "fill_category_group (ascii ''gaming'') (fill_category_group (ascii ''gaming'') item_b)
           = fill_category_group (ascii ''gaming'') item_b"
    by (simp add: fill_category_group_def get_or_none_def item_b_def)
  have u: "get_or_none (fill_category_group (ascii ''gaming'') item_b) ''url''
           = PyStr (ascii ''https://example.com/b'')"
    by (simp add: fill_category_group_def get_or_none_def item_b_def)
  have p: "\<not> priority_is_high item_b"
    by (simp add: priority_is_high_def item_b_def ascii_def)
  have m: "main_all_news (\<lambda>t. t) Map.empty no_refiners (Table []) [item_b]
       = Inr (Some [fill_category_group (ascii ''gaming'') item_b])"
    using p by (simp add: main_all_news_def load_existing_news_def smart_refine_batch_def
        remove_duplicates_def existing_urls_def f u)
  show ?thesis
    using h m load_failure_is_empty_history [OF h, of "\<lambda>t. t" Map.empty no_refiners "[item_b]"]
    by simp
qed

section \<open>Properties of the operations on the persisted store\<close>




























end
